theory Spec2Isabelle
  imports Main "HOL-Library.AList" "HOL-Library.Word"
begin

section \<open>Python values and exceptions\<close>

text \<open>
  The shim (\<^verbatim>\<open>plpydbapi.py\<close>) only looks at the runtime type of a parameter, never
  at its payload, so a Python value is a tag with the payload the host engine receives.
  \<^verbatim>\<open>PStr\<close> is \<^verbatim>\<open>str\<close> (which is also \<^verbatim>\<open>bytes\<close> under Python 2), \<^verbatim>\<open>PUnicode\<close>,
  \<^verbatim>\<open>PLong\<close> and \<^verbatim>\<open>PBuffer\<close> exist under Python 2 only, \<^verbatim>\<open>PBytes\<close> under Python 3 only.
  A float carries its IEEE-754 bits, a Decimal its literal. Instances of user-defined
  subclasses are not part of the model.
\<close>

datatype pyval =
    PNone
  | PBool bool
  | PInt int
  | PLong int
  | PFloat "64 word"
  | PDecimal string
  | PStr string
  | PUnicode string
  | PBytes string
  | PMemoryview string
  | PBuffer string
  | PBytearray string
  | PList "pyval list"
  | PTuple "pyval list"

datatype pytype =
    TNoneType | TBool | TInt | TLong | TFloat | TDecimal | TStr | TUnicode
  | TBytes | TMemoryview | TBuffer | TBytearray | TList | TTuple

text \<open>The interpreter the module is loaded in: \<^verbatim>\<open>sys.version[0] == '3'\<close> or not.\<close>

datatype pyversion = Py2 | Py3

datatype spierror = SPIError string

text \<open>
  The exceptions that leave the shim. \<^verbatim>\<open>Error spierror\<close> is the shim's class \<^verbatim>\<open>Error\<close>
  with its attribute \<^verbatim>\<open>spierror\<close> (None when raised bare); \<^verbatim>\<open>HostSPIError\<close> is the
  host's own \<^verbatim>\<open>plpy.SPIError\<close>, unwrapped.
\<close>

datatype error =
    Error "spierror option"
  | HostSPIError spierror
  | TypeError
  | ValueError
  | IndexError
  | KeyError
  | StopIteration

fun type_of :: "pyval \<Rightarrow> pytype" where
  "type_of PNone = TNoneType"
| "type_of (PBool _) = TBool"
| "type_of (PInt _) = TInt"
| "type_of (PLong _) = TLong"
| "type_of (PFloat _) = TFloat"
| "type_of (PDecimal _) = TDecimal"
| "type_of (PStr _) = TStr"
| "type_of (PUnicode _) = TUnicode"
| "type_of (PBytes _) = TBytes"
| "type_of (PMemoryview _) = TMemoryview"
| "type_of (PBuffer _) = TBuffer"
| "type_of (PBytearray _) = TBytearray"
| "type_of (PList _) = TList"
| "type_of (PTuple _) = TTuple"

text \<open>The classes of a builtin type, most specific first: \<^verbatim>\<open>bool\<close> is a subclass of \<^verbatim>\<open>int\<close>.\<close>

fun mro :: "pytype \<Rightarrow> pytype list" where
  "mro TBool = [TBool, TInt]"
| "mro t = [t]"

definition isinstance :: "pyval \<Rightarrow> pytype \<Rightarrow> bool" where
  "isinstance v t = (t \<in> set (mro (type_of v)))"

text \<open>\<^verbatim>\<open>isinstance(v, ts)\<close> with a tuple of classes.\<close>

definition isinstance_any :: "pyval \<Rightarrow> pytype list \<Rightarrow> bool" where
  "isinstance_any v ts = list_ex (isinstance v) ts"

section \<open>Module interface (lines 21--50)\<close>

text \<open>\<^verbatim>\<open>if sys.version[0] == '3': long = int\<close>.\<close>

fun long :: "pyversion \<Rightarrow> pytype" where
  "long Py2 = TLong"
| "long Py3 = TInt"

text \<open>The name \<^verbatim>\<open>bytes\<close>: an alias of \<^verbatim>\<open>str\<close> in Python 2.\<close>

fun bytes :: "pyversion \<Rightarrow> pytype" where
  "bytes Py2 = TStr"
| "bytes Py3 = TBytes"

text \<open>
  \<^verbatim>\<open>byte_types\<close>: \<^verbatim>\<open>bytes\<close> when it is not \<^verbatim>\<open>str\<close>, \<^verbatim>\<open>memoryview\<close>, \<^verbatim>\<open>buffer\<close> when the
  name exists (Python 2; Python 3 raises NameError, which is passed over), \<^verbatim>\<open>bytearray\<close>.
\<close>

definition byte_types :: "pyversion \<Rightarrow> pytype list" where
  "byte_types ver =
     (if bytes ver \<noteq> TStr then [bytes ver] else [])
     @ [TMemoryview]
     @ (case ver of Py2 \<Rightarrow> [TBuffer] | Py3 \<Rightarrow> [])
     @ [TBytearray]"

section \<open>Parameter type inference (lines 245--265)\<close>

definition py_param_to_pg_type :: "pyversion \<Rightarrow> pyval \<Rightarrow> string" where
  "py_param_to_pg_type ver param =
     (if isinstance param TBool then ''bool''
      else if isinstance param TDecimal then ''numeric''
      else if isinstance param TFloat then ''float8''
      else if isinstance param (long ver) then ''int''
      else if isinstance param TInt then ''int''
      else if isinstance_any param (byte_types ver) then ''bytea''
      else if isinstance param TList then ''text[]''
      else ''text'')"

text \<open>
  The classification as the specification words it: an ordered table of checks, the
  first check that holds decides, and a fallback when none holds.
\<close>

fun first_match :: "(('a \<Rightarrow> bool) \<times> 'b) list \<Rightarrow> 'b \<Rightarrow> 'a \<Rightarrow> 'b" where
  "first_match [] fallback x = fallback"
| "first_match ((check, result) # rest) fallback x =
     (if check x then result else first_match rest fallback x)"

definition boolean_like :: "pyval \<Rightarrow> bool" where
  "boolean_like v = isinstance v TBool"

definition exact_decimal :: "pyval \<Rightarrow> bool" where
  "exact_decimal v = isinstance v TDecimal"

definition floating_point :: "pyval \<Rightarrow> bool" where
  "floating_point v = isinstance v TFloat"

definition integer_like :: "pyversion \<Rightarrow> pyval \<Rightarrow> bool" where
  "integer_like ver v = (isinstance v (long ver) \<or> isinstance v TInt)"

definition byte_sequence_like :: "pyversion \<Rightarrow> pyval \<Rightarrow> bool" where
  "byte_sequence_like ver v = isinstance_any v (byte_types ver)"

definition is_list :: "pyval \<Rightarrow> bool" where
  "is_list v = isinstance v TList"

definition type_inference_table :: "pyversion \<Rightarrow> ((pyval \<Rightarrow> bool) \<times> string) list" where
  "type_inference_table ver =
     [(boolean_like, ''bool''),
      (exact_decimal, ''numeric''),
      (floating_point, ''float8''),
      (integer_like ver, ''int''),
      (byte_sequence_like ver, ''bytea''),
      (is_list, ''text[]'')]"

section \<open>Placeholder substitution (lines 191--210)\<close>

definition digit_char :: "nat \<Rightarrow> char" where
  "digit_char n = ''0123456789'' ! n"

text \<open>\<^verbatim>\<open>"%d" % n\<close> for a natural number.\<close>

fun str_nat :: "nat \<Rightarrow> string" where
  "str_nat n =
     (if n < 10 then [digit_char n] else str_nat (n div 10) @ [digit_char (n mod 10)])"

declare str_nat.simps [simp del]

definition emit :: "string \<Rightarrow> error + string \<Rightarrow> error + string" where
  "emit s r = (case r of Inl e \<Rightarrow> Inl e | Inr t \<Rightarrow> Inr (s @ t))"

text \<open>
  \<^verbatim>\<open>operation % tuple(args)\<close> for string arguments. The conversions \<^verbatim>\<open>%s\<close> and \<^verbatim>\<open>%%\<close>
  are modelled. Too few arguments and arguments left over raise TypeError, a \<^verbatim>\<open>%\<close> at
  the end raises ValueError, as in Python. Every other conversion (flags, widths,
  \<^verbatim>\<open>%d\<close>, \<^verbatim>\<open>%r\<close>, \<^verbatim>\<open>%(name)s\<close>) is outside the model and is given the ValueError that
  Python raises for an unsupported format character.
\<close>

fun py_format :: "string \<Rightarrow> string list \<Rightarrow> error + string" where
  "py_format [] [] = Inr []"
| "py_format [] (a # args) = Inl TypeError"
| "py_format (c # cs) args =
     (if c \<noteq> CHR ''%'' then emit [c] (py_format cs args)
      else (case cs of
              [] \<Rightarrow> Inl ValueError
            | d # ds \<Rightarrow>
                if d = CHR ''%'' then emit ''%'' (py_format ds args)
                else if d = CHR ''s'' then
                  (case args of
                     [] \<Rightarrow> Inl TypeError
                   | a # rest \<Rightarrow> emit a (py_format ds rest))
                else Inl ValueError))"

text \<open>\<^verbatim>\<open>hasattr(param, 'tobytes')\<close> and \<^verbatim>\<open>param.tobytes()\<close>: of the byte types, only a
  memoryview has the method; it returns \<^verbatim>\<open>bytes\<close>, which is \<^verbatim>\<open>str\<close> in Python 2.\<close>

fun hasattr_tobytes :: "pyval \<Rightarrow> bool" where
  "hasattr_tobytes (PMemoryview _) = True"
| "hasattr_tobytes _ = False"

fun tobytes :: "pyversion \<Rightarrow> pyval \<Rightarrow> pyval" where
  "tobytes Py2 (PMemoryview b) = PStr b"
| "tobytes Py3 (PMemoryview b) = PBytes b"
| "tobytes _ v = v"

text \<open>
  The loop of \<^verbatim>\<open>execute\<close> over the parameters, with its four variables
  \<^verbatim>\<open>placeholders\<close>, \<^verbatim>\<open>types\<close>, \<^verbatim>\<open>values\<close> and \<^verbatim>\<open>i\<close>.
\<close>

fun bind_loop ::
  "pyversion \<Rightarrow> pyval list \<Rightarrow> string list \<Rightarrow> string list \<Rightarrow> pyval list \<Rightarrow> nat
   \<Rightarrow> string list \<times> string list \<times> pyval list" where
  "bind_loop ver [] phs tys vals i = (phs, tys, vals)"
| "bind_loop ver (param # rest) phs tys vals i =
     (if param = PNone then bind_loop ver rest (phs @ [''NULL'']) tys vals i
      else
        let tys' = tys @ [py_param_to_pg_type ver param] in
        bind_loop ver rest (phs @ [''$'' @ str_nat (i + 1)]) tys'
          (if last tys' = ''bytea'' \<and> hasattr_tobytes param
           then vals @ [tobytes ver param] else vals @ [param])
          (i + 1))"

definition bind_parameters ::
  "pyversion \<Rightarrow> pyval list \<Rightarrow> string list \<times> string list \<times> pyval list" where
  "bind_parameters ver parameters = bind_loop ver parameters [] [] [] 0"

text \<open>
  For stating where a placeholder lands: the text made of the segments \<open>segs\<close> with
  the strings \<open>xs\<close> between them.
\<close>

fun interleave :: "string list \<Rightarrow> string list \<Rightarrow> string" where
  "interleave [] xs = []"
| "interleave (s # segs) [] = s"
| "interleave (s # segs) (x # xs) = s @ x @ interleave segs xs"

definition sql_template :: "string list \<Rightarrow> string" where
  "sql_template segs = interleave segs (replicate (length segs - 1) ''%s'')"

definition nonnull :: "pyval list \<Rightarrow> pyval list" where
  "nonnull parameters = filter (\<lambda>p. p \<noteq> PNone) parameters"

definition is_placeholder :: "string \<Rightarrow> bool" where
  "is_placeholder s = (s \<noteq> [] \<and> hd s = CHR ''$'')"

text \<open>
  What the loop should produce, for stating its result: the placeholder texts of a
  parameter list when \<open>i\<close> placeholders have been numbered so far, and the value queued
  for a non-null parameter.
\<close>

fun placeholder_texts :: "nat \<Rightarrow> pyval list \<Rightarrow> string list" where
  "placeholder_texts i [] = []"
| "placeholder_texts i (p # ps) =
     (if p = PNone then ''NULL'' # placeholder_texts i ps
      else (''$'' @ str_nat (Suc i)) # placeholder_texts (Suc i) ps)"

definition queued_value :: "pyversion \<Rightarrow> pyval \<Rightarrow> pyval" where
  "queued_value ver p =
     (if py_param_to_pg_type ver p = ''bytea'' \<and> hasattr_tobytes p then tobytes ver p else p)"

section \<open>The host engine\<close>

text \<open>
  The module \<^verbatim>\<open>plpy\<close> is not part of the repository. It is a parameter of the model: a
  record of functions over a database state \<open>'db\<close> of any type.
  \<^item> \<open>prepare_execute query types values\<close> is \<^verbatim>\<open>plpy.execute(plpy.prepare(query, types),
    values)\<close>: it raises \<^verbatim>\<open>plpy.SPIError\<close> or returns a result object;
  \<^item> \<open>pg_type_rows\<close> is the same pair of calls on the fixed catalog query of
    \<^verbatim>\<open>get_type_obj\<close>, its rows read as \<^verbatim>\<open>(int(row['oid']), row['typname'],
    row['typcategory'])\<close>;
  \<^item> \<open>subtransaction_enter\<close> and \<open>subtransaction_exit\<close> are the methods of
    \<^verbatim>\<open>plpy.subtransaction()\<close>; the argument of the exit is the exception type it is given;
  \<^item> \<open>has_colnames\<close> is \<^verbatim>\<open>'colnames' in res.__class__.__dict__\<close>, a property of the
    host's result class (PostgreSQL 9.2 and later).
  A result row is a dictionary from column names to values, kept in key order.
\<close>

type_synonym row = "(string \<times> pyval) list"

record spi_result =
  res_status :: int
  res_nrows :: int
  res_rows :: "row list"
  res_colnames :: "string list"
  res_coltypes :: "int list"

record 'db host =
  has_colnames :: bool
  subtransaction_enter :: "'db \<Rightarrow> 'db"
  subtransaction_exit :: "string option \<Rightarrow> 'db \<Rightarrow> 'db"
  prepare_execute ::
    "string \<Rightarrow> string list \<Rightarrow> pyval list \<Rightarrow> 'db \<Rightarrow> (spierror + spi_result) \<times> 'db"
  pg_type_rows :: "'db \<Rightarrow> (spierror + (int \<times> string \<times> string) list) \<times> 'db"

section \<open>Connection objects (lines 101--154)\<close>

datatype subtransaction = Subtransaction

datatype typeobj = STRING | BINARY | NUMBER | DATETIME | ROWID

text \<open>
  Everything a cursor shares with its session: the attributes \<^verbatim>\<open>closed\<close> and
  \<^verbatim>\<open>_subxact\<close> of the \<^verbatim>\<open>Connection\<close>, the host database, and the module's global
  \<^verbatim>\<open>_typoid_typeobjs\<close>.
\<close>

record 'db world =
  conn_closed :: bool
  subxact :: "subtransaction option"
  db :: 'db
  typoid_typeobjs :: "(int \<times> typeobj) list"

definition ensure_transaction :: "'db host \<Rightarrow> 'db world \<Rightarrow> 'db world" where
  "ensure_transaction h w =
     (if subxact w = None
      then w\<lparr>subxact := Some Subtransaction, db := subtransaction_enter h (db w)\<rparr>
      else w)"

definition commit :: "'db host \<Rightarrow> 'db world \<Rightarrow> error + 'db world" where
  "commit h w =
     (if conn_closed w then Inl (Error None)
      else Inr ((if subxact w \<noteq> None then w\<lparr>db := subtransaction_exit h None (db w)\<rparr> else w)
                 \<lparr>subxact := None\<rparr>))"

definition rollback :: "'db host \<Rightarrow> 'db world \<Rightarrow> error + 'db world" where
  "rollback h w =
     (if conn_closed w then Inl (Error None)
      else Inr ((if subxact w \<noteq> None
                 then w\<lparr>db := subtransaction_exit h (Some ''fake exception'') (db w)\<rparr>
                 else w)
                 \<lparr>subxact := None\<rparr>))"

definition Connection_close :: "'db host \<Rightarrow> 'db world \<Rightarrow> error + 'db world" where
  "Connection_close h w =
     (if conn_closed w then Inl (Error None)
      else (case rollback h w of
              Inl e \<Rightarrow> Inl e
            | Inr w' \<Rightarrow> Inr (w'\<lparr>conn_closed := True\<rparr>)))"

section \<open>Cursor objects (lines 160--332)\<close>

text \<open>A column descriptor \<^verbatim>\<open>(name, type_code, None, None, None, None, None)\<close>, without
  its five constant fields.\<close>

type_synonym descriptor = "string option \<times> typeobj option"

record cursor =
  description :: "descriptor list option"
  rowcount :: int
  arraysize :: int
  rownumber :: "int option"
  closed :: bool
  execute_result :: "pyval list list option"

text \<open>\<^verbatim>\<open>Connection.cursor\<close>: a cursor with the class attributes, bound to the session.\<close>

definition Connection_cursor :: cursor where
  "Connection_cursor =
     \<lparr>description = None, rowcount = -1, arraysize = 1, rownumber = None,
      closed = False, execute_result = None\<rparr>"

definition SPI_OK_UTILITY :: int where "SPI_OK_UTILITY = 4"
definition SPI_OK_SELECT :: int where "SPI_OK_SELECT = 5"
definition SPI_OK_INSERT_RETURNING :: int where "SPI_OK_INSERT_RETURNING = 11"
definition SPI_OK_DELETE_RETURNING :: int where "SPI_OK_DELETE_RETURNING = 12"
definition SPI_OK_UPDATE_RETURNING :: int where "SPI_OK_UPDATE_RETURNING = 13"

definition Cursor_close :: "cursor \<Rightarrow> cursor" where
  "Cursor_close c = c\<lparr>closed := True\<rparr>"

definition is_closed :: "cursor \<Rightarrow> 'db world \<Rightarrow> bool" where
  "is_closed c w = (closed c \<or> conn_closed w)"

subsection \<open>Type objects (lines 389--415)\<close>

definition typname_typeobjs :: "(string \<times> typeobj) list" where
  "typname_typeobjs = [(''bytea'', BINARY)]"

definition typcategory_typeobjs :: "(string \<times> typeobj) list" where
  "typcategory_typeobjs =
     [(''D'', DATETIME), (''N'', NUMBER), (''S'', STRING), (''T'', DATETIME)]"

fun fill_typoid_typeobjs ::
  "(int \<times> string \<times> string) list \<Rightarrow> (int \<times> typeobj) list \<Rightarrow> (int \<times> typeobj) list" where
  "fill_typoid_typeobjs [] cache = cache"
| "fill_typoid_typeobjs ((oid, typname, typcategory) # rest) cache =
     (case map_of typcategory_typeobjs typcategory of
        Some t \<Rightarrow> fill_typoid_typeobjs rest (AList.update oid t cache)
      | None \<Rightarrow>
         (case map_of typname_typeobjs typname of
            Some t \<Rightarrow> fill_typoid_typeobjs rest (AList.update oid t cache)
          | None \<Rightarrow> fill_typoid_typeobjs rest cache))"

text \<open>\<^verbatim>\<open>get_type_obj\<close>: the catalog query runs when the cache is empty, outside any
  \<^verbatim>\<open>try\<close>, so an SPIError of the host leaves the function as it is.\<close>

definition get_type_obj ::
  "'db host \<Rightarrow> int \<Rightarrow> 'db world \<Rightarrow> (error + typeobj option) \<times> 'db world" where
  "get_type_obj h typeoid w =
     (if typoid_typeobjs w = [] then
        (case pg_type_rows h (db w) of
           (Inl e, d) \<Rightarrow> (Inl (HostSPIError e), w\<lparr>db := d\<rparr>)
         | (Inr catalog, d) \<Rightarrow>
             let cache = fill_typoid_typeobjs catalog [] in
             (Inr (map_of cache typeoid), w\<lparr>db := d, typoid_typeobjs := cache\<rparr>))
      else (Inr (map_of (typoid_typeobjs w) typeoid), w))"

subsection \<open>execute (lines 185--243)\<close>

definition row_get :: "row \<Rightarrow> string \<Rightarrow> error + pyval" where
  "row_get r col = (case map_of r col of None \<Rightarrow> Inl KeyError | Some v \<Rightarrow> Inr v)"

text \<open>A list comprehension whose element expression may raise: the first exception
  ends it.\<close>

fun map_result :: "('a \<Rightarrow> error + 'b) \<Rightarrow> 'a list \<Rightarrow> error + 'b list" where
  "map_result f [] = Inr []"
| "map_result f (x # xs) =
     (case f x of
        Inl e \<Rightarrow> Inl e
      | Inr y \<Rightarrow> (case map_result f xs of Inl e \<Rightarrow> Inl e | Inr ys \<Rightarrow> Inr (y # ys)))"

text \<open>Lines 224--228: every row as a tuple, in the order of \<^verbatim>\<open>res.colnames()\<close> or
  else of the row's keys.\<close>

definition materialize :: "'db host \<Rightarrow> spi_result \<Rightarrow> error + pyval list list" where
  "materialize h res =
     (if has_colnames h
      then map_result (\<lambda>r. map_result (row_get r) (res_colnames res)) (res_rows res)
      else map_result (\<lambda>r. map_result (row_get r) (map fst r)) (res_rows res))"

text \<open>Line 232: one call of \<^verbatim>\<open>get_type_obj\<close> per column, in order.\<close>

fun describe_columns ::
  "'db host \<Rightarrow> (string \<times> int) list \<Rightarrow> 'db world \<Rightarrow> (error + descriptor list) \<times> 'db world" where
  "describe_columns h [] w = (Inr [], w)"
| "describe_columns h ((name, typeoid) # rest) w =
     (case get_type_obj h typeoid w of
        (Inl e, w') \<Rightarrow> (Inl e, w')
      | (Inr t, w') \<Rightarrow>
          (case describe_columns h rest w' of
             (Inl e, w'') \<Rightarrow> (Inl e, w'')
           | (Inr ds, w'') \<Rightarrow> (Inr ((Some name, t) # ds), w'')))"

text \<open>Lines 230--238.\<close>

definition describe ::
  "'db host \<Rightarrow> spi_result \<Rightarrow> 'db world \<Rightarrow> (error + descriptor list) \<times> 'db world" where
  "describe h res w =
     (if has_colnames h
      then describe_columns h (zip (res_colnames res) (res_coltypes res)) w
      else (case res_rows res of
              first # _ \<Rightarrow> (Inr (map (\<lambda>name. (Some name, None)) (map fst first)), w)
            | [] \<Rightarrow> (Inr [(None, None)], w)))"

text \<open>Lines 217--220.\<close>

definition reset :: "cursor \<Rightarrow> cursor" where
  "reset c = c\<lparr>execute_result := None, rownumber := None, description := None, rowcount := -1\<rparr>"

text \<open>Lines 240--243.\<close>

definition set_rowcount :: "spi_result \<Rightarrow> cursor \<Rightarrow> cursor" where
  "set_rowcount res c =
     c\<lparr>rowcount := (if res_status res = SPI_OK_UTILITY then -1 else res_nrows res)\<rparr>"

text \<open>
  Lines 189--215 of \<^verbatim>\<open>execute\<close>: open the transaction scope, rewrite the statement, and
  run it on the host inside the \<^verbatim>\<open>try\<close>. The cursor is not touched. An absent or empty
  \<^verbatim>\<open>parameters\<close> is the empty list.
\<close>

definition execute_host ::
  "'db host \<Rightarrow> pyversion \<Rightarrow> string \<Rightarrow> pyval list option \<Rightarrow> 'db world
   \<Rightarrow> (error + spi_result) \<times> 'db world" where
  "execute_host h ver operation parameters w =
     (let w1 = ensure_transaction h w;
          ps = (case parameters of None \<Rightarrow> [] | Some ps \<Rightarrow> ps);
          (phs, tys, vals) = bind_parameters ver ps
      in case py_format operation phs of
           Inl e \<Rightarrow> (Inl e, w1)
         | Inr query \<Rightarrow>
             (case prepare_execute h query tys vals (db w1) of
                (Inl e, d) \<Rightarrow> (Inl (Error (Some e)), w1\<lparr>db := d\<rparr>)
              | (Inr res, d) \<Rightarrow> (Inr res, w1\<lparr>db := d\<rparr>)))"

text \<open>Lines 217--243 of \<^verbatim>\<open>execute\<close>: what is done with the host's result.\<close>

definition execute_store ::
  "'db host \<Rightarrow> spi_result \<Rightarrow> cursor \<Rightarrow> 'db world \<Rightarrow> (error + unit) \<times> cursor \<times> 'db world" where
  "execute_store h res c w =
     (let c0 = reset c in
      if res_status res \<in> set [SPI_OK_SELECT, SPI_OK_INSERT_RETURNING,
                                SPI_OK_DELETE_RETURNING, SPI_OK_UPDATE_RETURNING]
      then (case materialize h res of
              Inl e \<Rightarrow> (Inl e, c0, w)
            | Inr tuples \<Rightarrow>
                let c1 = c0\<lparr>execute_result := Some tuples, rownumber := Some 0\<rparr> in
                (case describe h res w of
                   (Inl e, w') \<Rightarrow> (Inl e, c1, w')
                 | (Inr d, w') \<Rightarrow> (Inr (), set_rowcount res (c1\<lparr>description := Some d\<rparr>), w')))
      else (Inr (), set_rowcount res c0, w))"

definition execute ::
  "'db host \<Rightarrow> pyversion \<Rightarrow> string \<Rightarrow> pyval list option \<Rightarrow> cursor \<Rightarrow> 'db world
   \<Rightarrow> (error + unit) \<times> cursor \<times> 'db world" where
  "execute h ver operation parameters c w =
     (if is_closed c w then (Inl (Error None), c, w)
      else (case execute_host h ver operation parameters w of
              (Inl e, w') \<Rightarrow> (Inl e, c, w')
            | (Inr res, w') \<Rightarrow> execute_store h res c w'))"

subsection \<open>executemany (lines 267--275)\<close>

fun executemany_loop ::
  "'db host \<Rightarrow> pyversion \<Rightarrow> string \<Rightarrow> pyval list option list \<Rightarrow> int \<Rightarrow> cursor \<Rightarrow> 'db world
   \<Rightarrow> (error + int) \<times> cursor \<times> 'db world" where
  "executemany_loop h ver operation [] totalcount c w = (Inr totalcount, c, w)"
| "executemany_loop h ver operation (parameters # rest) totalcount c w =
     (case execute h ver operation parameters c w of
        (Inl e, c', w') \<Rightarrow> (Inl e, c', w')
      | (Inr _, c', w') \<Rightarrow>
          executemany_loop h ver operation rest
            (if totalcount \<noteq> -1 then totalcount + rowcount c' else totalcount) c' w')"

definition executemany ::
  "'db host \<Rightarrow> pyversion \<Rightarrow> string \<Rightarrow> pyval list option list \<Rightarrow> cursor \<Rightarrow> 'db world
   \<Rightarrow> (error + unit) \<times> cursor \<times> 'db world" where
  "executemany h ver operation seq_of_parameters c w =
     (case executemany_loop h ver operation seq_of_parameters 0 c w of
        (Inl e, c', w') \<Rightarrow> (Inl e, c', w')
      | (Inr totalcount, c', w') \<Rightarrow> (Inr (), c'\<lparr>rowcount := totalcount\<rparr>, w'))"

subsection \<open>Fetching and scrolling (lines 277--317)\<close>

text \<open>\<^verbatim>\<open>xs[k]\<close>: a negative index counts from the end, an index out of range raises.\<close>

definition py_index :: "'a list \<Rightarrow> int \<Rightarrow> error + 'a" where
  "py_index xs k =
     (let n = int (length xs); j = (if k < 0 then k + n else k)
      in if 0 \<le> j \<and> j < n then Inr (xs ! nat j) else Inl IndexError)"

text \<open>A bound of a slice of a list of length \<open>n\<close>: negative bounds count from the end,
  and every bound is clipped to the list.\<close>

definition slice_bound :: "nat \<Rightarrow> int \<Rightarrow> nat" where
  "slice_bound n k = (if k < 0 then nat (max 0 (k + int n)) else min n (nat k))"

definition py_slice :: "'a list \<Rightarrow> int \<Rightarrow> int \<Rightarrow> 'a list" where
  "py_slice xs lo hi =
     (let a = slice_bound (length xs) lo; b = slice_bound (length xs) hi
      in take (b - a) (drop a xs))"

definition py_slice_from :: "'a list \<Rightarrow> int \<Rightarrow> 'a list" where
  "py_slice_from xs lo = drop (slice_bound (length xs) lo) xs"

text \<open>With a buffer and \<^verbatim>\<open>rownumber\<close> None (which \<^verbatim>\<open>execute\<close> never leaves), Python
  raises TypeError at \<^verbatim>\<open>xs[None]\<close> and at \<^verbatim>\<open>None + size\<close>.\<close>

definition fetchone :: "cursor \<Rightarrow> (error + pyval list option) \<times> cursor" where
  "fetchone c =
     (case execute_result c of
        None \<Rightarrow> (Inl (Error None), c)
      | Some buffer \<Rightarrow>
          (case rownumber c of
             None \<Rightarrow> (Inl TypeError, c)
           | Some r \<Rightarrow>
               if r = int (length buffer) then (Inr None, c)
               else (case py_index buffer r of
                       Inl e \<Rightarrow> (Inl e, c)
                     | Inr result \<Rightarrow> (Inr (Some result), c\<lparr>rownumber := Some (r + 1)\<rparr>))))"

definition fetchmany :: "int option \<Rightarrow> cursor \<Rightarrow> (error + pyval list list) \<times> cursor" where
  "fetchmany size_arg c =
     (case execute_result c of
        None \<Rightarrow> (Inl (Error None), c)
      | Some buffer \<Rightarrow>
          let n = (case size_arg of None \<Rightarrow> arraysize c | Some n \<Rightarrow> n) in
          (case rownumber c of
             None \<Rightarrow> (Inl TypeError, c)
           | Some r \<Rightarrow> (Inr (py_slice buffer r (r + n)), c\<lparr>rownumber := Some (r + n)\<rparr>)))"

definition fetchall :: "cursor \<Rightarrow> (error + pyval list list) \<times> cursor" where
  "fetchall c =
     (case execute_result c of
        None \<Rightarrow> (Inl (Error None), c)
      | Some buffer \<Rightarrow>
          (Inr (case rownumber c of None \<Rightarrow> buffer | Some r \<Rightarrow> py_slice_from buffer r),
           c\<lparr>rownumber := Some (int (length buffer))\<rparr>))"

definition next_row :: "cursor \<Rightarrow> (error + pyval list) \<times> cursor" where
  "next_row c =
     (case fetchone c of
        (Inl e, c') \<Rightarrow> (Inl e, c')
      | (Inr None, c') \<Rightarrow> (Inl StopIteration, c')
      | (Inr (Some result), c') \<Rightarrow> (Inr result, c'))"

text \<open>Lines 315--317 of \<^verbatim>\<open>scroll\<close>; \<^verbatim>\<open>len(None)\<close> raises TypeError.\<close>

definition scroll_to :: "int \<Rightarrow> cursor \<Rightarrow> (error + unit) \<times> cursor" where
  "scroll_to newpos c =
     (if newpos < 0 then (Inl IndexError, c)
      else (case execute_result c of
              None \<Rightarrow> (Inl TypeError, c)
            | Some buffer \<Rightarrow>
                if newpos > int (length buffer) then (Inl IndexError, c)
                else (Inr (), c\<lparr>rownumber := Some newpos\<rparr>)))"

definition scroll :: "int \<Rightarrow> string \<Rightarrow> cursor \<Rightarrow> (error + unit) \<times> cursor" where
  "scroll val mode c =
     (if mode = ''relative'' then
        (case rownumber c of
           None \<Rightarrow> (Inl TypeError, c)
         | Some r \<Rightarrow> scroll_to (r + val) c)
      else if mode = ''absolute'' then scroll_to val c
      else (Inl ValueError, c))"

text \<open>\<^verbatim>\<open>fetchone\<close> called \<open>n\<close> times in a row, with the outcome of every call.\<close>

fun fetchone_times :: "nat \<Rightarrow> cursor \<Rightarrow> (error + pyval list option) list \<times> cursor" where
  "fetchone_times 0 c = ([], c)"
| "fetchone_times (Suc n) c =
     (case fetchone c of
        (r, c') \<Rightarrow> (case fetchone_times n c' of (rs, c'') \<Rightarrow> (r # rs, c'')))"

section \<open>Example hosts\<close>

text \<open>
  Hosts over a database state that counts the statements run so far, for evaluating
  the shim on concrete calls. \<open>select_host\<close> answers every statement with the same two
  rows; \<open>fail_second_host\<close> fails from the second statement on; on
  \<open>catalog_failing_host\<close> the catalog query of \<^verbatim>\<open>get_type_obj\<close> fails (the
  caller may not read \<^verbatim>\<open>pg_type\<close>);
  \<open>insert_then_utility_host\<close> reports five inserted rows for the first statement and a
  utility status afterwards.
\<close>

definition two_rows :: spi_result where
  "two_rows =
     \<lparr>res_status = SPI_OK_SELECT, res_nrows = 2,
      res_rows = [[(''id'', PInt 1), (''name'', PStr ''Victoria Bitter'')],
                  [(''id'', PInt 2), (''name'', PStr ''Coopers'')]],
      res_colnames = [''id'', ''name''], res_coltypes = [23, 25]\<rparr>"

definition pg_type_catalog :: "(int \<times> string \<times> string) list" where
  "pg_type_catalog = [(17, ''bytea'', ''U''), (23, ''int4'', ''N''), (25, ''text'', ''S'')]"

definition select_host :: "nat host" where
  "select_host =
     \<lparr>has_colnames = True,
      subtransaction_enter = (\<lambda>d. d),
      subtransaction_exit = (\<lambda>exc d. d),
      prepare_execute = (\<lambda>query tys vals d. (Inr two_rows, Suc d)),
      pg_type_rows = (\<lambda>d. (Inr pg_type_catalog, d))\<rparr>"

definition fail_second_host :: "nat host" where
  "fail_second_host =
     select_host\<lparr>prepare_execute :=
       (\<lambda>query tys vals d.
          (if d = 0 then Inr two_rows else Inl (SPIError ''syntax error''), Suc d))\<rparr>"

definition catalog_failing_host :: "nat host" where
  "catalog_failing_host =
     select_host\<lparr>pg_type_rows :=
       (\<lambda>d. (Inl (SPIError ''permission denied for table pg_type''), d))\<rparr>"

definition five_inserted :: spi_result where
  "five_inserted =
     \<lparr>res_status = 7, res_nrows = 5, res_rows = [], res_colnames = [], res_coltypes = []\<rparr>"

definition utility_done :: spi_result where
  "utility_done =
     \<lparr>res_status = SPI_OK_UTILITY, res_nrows = 0, res_rows = [], res_colnames = [],
      res_coltypes = []\<rparr>"

definition insert_then_utility_host :: "nat host" where
  "insert_then_utility_host =
     select_host\<lparr>prepare_execute :=
       (\<lambda>query tys vals d. (Inr (if d = 0 then five_inserted else utility_done), Suc d))\<rparr>"

definition fresh_world :: "nat world" where
  "fresh_world = \<lparr>conn_closed = False, subxact = None, db = 0, typoid_typeobjs = []\<rparr>"

text \<open>The cursor and the world after \<^verbatim>\<open>cur.execute("select * from booze")\<close> on a new
  cursor of a new session.\<close>

definition after_select :: "nat host \<Rightarrow> cursor \<times> nat world" where
  "after_select h = snd (execute h Py3 ''select * from booze'' None Connection_cursor fresh_world)"

text \<open>The rows that \<open>select_host\<close> returns, as tuples.\<close>

definition booze_rows :: "pyval list list" where
  "booze_rows = [[PInt 1, PStr ''Victoria Bitter''], [PInt 2, PStr ''Coopers'']]"

text \<open>A cursor that holds a result buffer also holds a position.\<close>

definition positioned :: "cursor \<Rightarrow> bool" where
  "positioned c = (case execute_result c of None \<Rightarrow> True | Some buffer \<Rightarrow> rownumber c \<noteq> None)"

section \<open>Theorems\<close>

lemma isinstance_simps:
  "isinstance v t = (t = type_of v \<or> (type_of v = TBool \<and> t = TInt))"
  by (cases v) (auto simp: isinstance_def)

text \<open>
  Claim C4. The classification of a parameter is a first-match-wins check in the order
  boolean, exact decimal, floating point, integer-like, byte-sequence-like, list, with
  text as the fallback, and the results are 'bool', 'numeric', 'float8', 'int', 'bytea',
  'text[]' and 'text'. Every boolean also passes the integer check, and is classified
  'bool', not 'int'. On the values of each kind the results are as listed. (The first
  statement holds for every value; a null parameter is never classified by
  \<^verbatim>\<open>execute\<close>.)
\<close>

theorem py_param_to_pg_type_first_match:
  "py_param_to_pg_type ver param = first_match (type_inference_table ver) ''text'' param
   \<and> integer_like ver (PBool b)
   \<and> py_param_to_pg_type ver (PBool b) = ''bool''
   \<and> py_param_to_pg_type ver (PBool b) \<noteq> ''int''
   \<and> py_param_to_pg_type ver (PDecimal d) = ''numeric''
   \<and> py_param_to_pg_type ver (PFloat x) = ''float8''
   \<and> py_param_to_pg_type ver (PInt n) = ''int''
   \<and> py_param_to_pg_type Py2 (PLong n) = ''int''
   \<and> py_param_to_pg_type Py3 (PBytes s) = ''bytea''
   \<and> py_param_to_pg_type ver (PMemoryview s) = ''bytea''
   \<and> py_param_to_pg_type Py2 (PBuffer s) = ''bytea''
   \<and> py_param_to_pg_type ver (PBytearray s) = ''bytea''
   \<and> py_param_to_pg_type ver (PList xs) = ''text[]''
   \<and> py_param_to_pg_type ver (PStr s) = ''text''
   \<and> py_param_to_pg_type ver (PTuple xs) = ''text''"
  by (cases ver)
     (simp_all add: py_param_to_pg_type_def type_inference_table_def boolean_like_def
        exact_decimal_def floating_point_def integer_like_def byte_sequence_like_def
        is_list_def isinstance_simps isinstance_any_def byte_types_def)

theorem py_param_to_pg_type_first_match_witness:
  "py_param_to_pg_type Py3 (PBool True)
     = first_match (type_inference_table Py3) ''text'' (PBool True)
   \<and> integer_like Py3 (PBool True)
   \<and> py_param_to_pg_type Py3 (PBool True) = ''bool''
   \<and> py_param_to_pg_type Py3 (PBool True) \<noteq> ''int''"
  using py_param_to_pg_type_first_match [of Py3 "PBool True" True] by blast

subsection \<open>Placeholders\<close>

lemma zip_map_same: "zip (map f xs) (map g xs) = map (\<lambda>p. (f p, g p)) xs"
  by (induction xs) simp_all

lemma bind_loop_acc:
  "bind_loop ver ps phs tys vals i =
     (phs @ placeholder_texts i ps,
      tys @ map (py_param_to_pg_type ver) (nonnull ps),
      vals @ map (queued_value ver) (nonnull ps))"
  by (induction ps arbitrary: phs tys vals i)
     (simp_all add: nonnull_def queued_value_def Let_def)

lemma length_placeholder_texts: "length (placeholder_texts i ps) = length ps"
  by (induction ps arbitrary: i) simp_all

lemma placeholder_texts_nth:
  "k < length ps \<Longrightarrow>
   placeholder_texts i ps ! k =
     (if ps ! k = PNone then ''NULL''
      else ''$'' @ str_nat (i + length (nonnull (take (Suc k) ps))))"
proof (induction ps arbitrary: i k)
  case Nil
  then show ?case by simp
next
  case (Cons p ps)
  show ?case
  proof (cases k)
    case 0
    then show ?thesis by (simp add: nonnull_def)
  next
    case (Suc j)
    with Cons.prems have "j < length ps" by simp
    from Cons.IH [OF this] Suc show ?thesis by (simp add: nonnull_def)
  qed
qed

lemma count_placeholder_texts:
  "length (filter is_placeholder (placeholder_texts i ps)) = length (nonnull ps)"
  by (induction ps arbitrary: i) (simp_all add: nonnull_def is_placeholder_def)

lemma py_format_plain:
  "CHR ''%'' \<notin> set s \<Longrightarrow> py_format (s @ t) args = emit s (py_format t args)"
proof (induction s)
  case Nil
  show ?case by (cases "py_format t args") (simp_all add: emit_def)
next
  case (Cons c s)
  then show ?case by (cases "py_format t args") (auto simp: emit_def)
qed

lemma py_format_plain_end: "CHR ''%'' \<notin> set s \<Longrightarrow> py_format s [] = Inr s"
  by (induction s) (auto simp: emit_def)

lemma py_format_interleave:
  "length segs = Suc (length xs) \<Longrightarrow> \<forall>s\<in>set segs. CHR ''%'' \<notin> set s \<Longrightarrow>
   py_format (interleave segs (replicate (length xs) ''%s'')) xs = Inr (interleave segs xs)"
proof (induction xs arbitrary: segs)
  case Nil
  then obtain s where "segs = [s]" by (cases segs) auto
  with Nil show ?case by (simp add: py_format_plain_end)
next
  case (Cons x xs)
  then obtain s rest where segs: "segs = s # rest" by (cases segs) auto
  with Cons.prems have len: "length rest = Suc (length xs)"
    and pc: "\<forall>s\<in>set rest. CHR ''%'' \<notin> set s" and s: "CHR ''%'' \<notin> set s" by auto
  from Cons.IH [OF len pc] s segs show ?case
    by (simp add: py_format_plain emit_def)
qed

text \<open>
  Claim C5. For the parameter list of an \<^verbatim>\<open>execute\<close> call: there is one substituted
  text per parameter; at the position of a null parameter it is the literal NULL, which
  is no placeholder, and at the position of a non-null parameter it is \<^verbatim>\<open>$n\<close>, where
  \<open>n\<close> counts the non-null parameters up to and including that position; the queued
  (type, value) bindings are exactly one per non-null parameter, in order; so a list
  without nulls yields as many placeholders as parameters. In a statement whose
  \<^verbatim>\<open>%s\<close> markers separate the segments \<open>segs\<close>, each substituted text lands at the
  position of its parameter, and that statement and those bindings are what the host
  is given.
\<close>

theorem bind_parameters_null_and_placeholders:
  assumes "bind_parameters ver parameters = (phs, tys, vals)"
  shows "length phs = length parameters
    \<and> (\<forall>k<length parameters.
          phs ! k = (if parameters ! k = PNone then ''NULL''
                     else ''$'' @ str_nat (length (nonnull (take (Suc k) parameters)))))
    \<and> \<not> is_placeholder ''NULL''
    \<and> length (filter is_placeholder phs) = length (nonnull parameters)
    \<and> zip tys vals
        = map (\<lambda>p. (py_param_to_pg_type ver p, queued_value ver p)) (nonnull parameters)
    \<and> length tys = length (nonnull parameters)
    \<and> length vals = length (nonnull parameters)
    \<and> (PNone \<notin> set parameters \<longrightarrow> length (filter is_placeholder phs) = length parameters)
    \<and> (\<forall>segs. length segs = Suc (length parameters) \<and> (\<forall>s\<in>set segs. CHR ''%'' \<notin> set s)
          \<longrightarrow> py_format (sql_template segs) phs = Inr (interleave segs phs)
            \<and> execute_host h ver (sql_template segs) (Some parameters) w
                = (let w1 = ensure_transaction h w in
                   case prepare_execute h (interleave segs phs) tys vals (db w1) of
                     (Inl e, d) \<Rightarrow> (Inl (Error (Some e)), w1\<lparr>db := d\<rparr>)
                   | (Inr res, d) \<Rightarrow> (Inr res, w1\<lparr>db := d\<rparr>)))"
proof -
  from assms have phs: "phs = placeholder_texts 0 parameters"
    and tys: "tys = map (py_param_to_pg_type ver) (nonnull parameters)"
    and vals: "vals = map (queued_value ver) (nonnull parameters)"
    by (simp_all add: bind_parameters_def bind_loop_acc)
  have len: "length phs = length parameters"
    by (simp add: phs length_placeholder_texts)
  have nth: "\<forall>k<length parameters.
      phs ! k = (if parameters ! k = PNone then ''NULL''
                 else ''$'' @ str_nat (length (nonnull (take (Suc k) parameters))))"
    by (simp add: phs placeholder_texts_nth)
  have cnt: "length (filter is_placeholder phs) = length (nonnull parameters)"
    by (simp add: phs count_placeholder_texts)
  have zp: "zip tys vals
      = map (\<lambda>p. (py_param_to_pg_type ver p, queued_value ver p)) (nonnull parameters)"
    by (simp add: tys vals zip_map_same)
  have all: "PNone \<notin> set parameters \<longrightarrow> length (filter is_placeholder phs) = length parameters"
  proof
    assume "PNone \<notin> set parameters"
    then have "nonnull parameters = parameters"
      by (auto simp: nonnull_def filter_id_conv)
    with cnt show "length (filter is_placeholder phs) = length parameters" by simp
  qed
  have fmt: "\<forall>segs. length segs = Suc (length parameters) \<and> (\<forall>s\<in>set segs. CHR ''%'' \<notin> set s)
      \<longrightarrow> py_format (sql_template segs) phs = Inr (interleave segs phs)
        \<and> execute_host h ver (sql_template segs) (Some parameters) w
            = (let w1 = ensure_transaction h w in
               case prepare_execute h (interleave segs phs) tys vals (db w1) of
                 (Inl e, d) \<Rightarrow> (Inl (Error (Some e)), w1\<lparr>db := d\<rparr>)
               | (Inr res, d) \<Rightarrow> (Inr res, w1\<lparr>db := d\<rparr>))"
  proof (intro allI impI, elim conjE)
    fix segs :: "string list"
    assume l: "length segs = Suc (length parameters)"
      and pc: "\<forall>s\<in>set segs. CHR ''%'' \<notin> set s"
    from l len have l': "length segs = Suc (length phs)" by simp
    from py_format_interleave [OF l' pc] l' have f:
      "py_format (sql_template segs) phs = Inr (interleave segs phs)"
      by (simp add: sql_template_def)
    show "py_format (sql_template segs) phs = Inr (interleave segs phs)
        \<and> execute_host h ver (sql_template segs) (Some parameters) w
            = (let w1 = ensure_transaction h w in
               case prepare_execute h (interleave segs phs) tys vals (db w1) of
                 (Inl e, d) \<Rightarrow> (Inl (Error (Some e)), w1\<lparr>db := d\<rparr>)
               | (Inr res, d) \<Rightarrow> (Inr res, w1\<lparr>db := d\<rparr>))"
      using f assms by (simp add: execute_host_def Let_def)
  qed
  have nul: "\<not> is_placeholder ''NULL''" by (simp add: is_placeholder_def)
  from len nth nul cnt zp all fmt show ?thesis
    by (simp add: tys vals)
qed

subsection \<open>Evaluating the example hosts\<close>

lemmas eval_defs =
  after_select_def execute_def execute_host_def execute_store_def is_closed_def
  Connection_cursor_def fresh_world_def select_host_def two_rows_def ensure_transaction_def
  bind_parameters_def materialize_def row_get_def describe_def get_type_obj_def
  pg_type_catalog_def typcategory_typeobjs_def typname_typeobjs_def reset_def set_rowcount_def
  SPI_OK_SELECT_def SPI_OK_INSERT_RETURNING_def SPI_OK_DELETE_RETURNING_def
  SPI_OK_UPDATE_RETURNING_def SPI_OK_UTILITY_def emit_def

lemma after_select_select_host:
  "after_select select_host =
   (\<lparr>description = Some [(Some ''id'', Some NUMBER), (Some ''name'', Some STRING)],
     rowcount = 2, arraysize = 1, rownumber = Some 0, closed = False,
     execute_result = Some [[PInt 1, PStr ''Victoria Bitter''], [PInt 2, PStr ''Coopers'']]\<rparr>,
    \<lparr>conn_closed = False, subxact = Some Subtransaction, db = 1,
     typoid_typeobjs = [(17, BINARY), (23, NUMBER), (25, STRING)]\<rparr>)"
  by (simp add: eval_defs)

lemma after_select_fail_second_host:
  "after_select fail_second_host =
   (\<lparr>description = Some [(Some ''id'', Some NUMBER), (Some ''name'', Some STRING)],
     rowcount = 2, arraysize = 1, rownumber = Some 0, closed = False,
     execute_result = Some [[PInt 1, PStr ''Victoria Bitter''], [PInt 2, PStr ''Coopers'']]\<rparr>,
    \<lparr>conn_closed = False, subxact = Some Subtransaction, db = 1,
     typoid_typeobjs = [(17, BINARY), (23, NUMBER), (25, STRING)]\<rparr>)"
  by (simp add: eval_defs fail_second_host_def)

lemma booze_cursor:
  "execute_result (fst (after_select select_host)) = Some booze_rows"
  "rownumber (fst (after_select select_host)) = Some 0"
  "closed (fst (after_select select_host)) = False"
  by (simp_all add: after_select_select_host booze_rows_def)

lemma execute_host_fail_second:
  "execute_host fail_second_host Py3 ''select 1'' None (snd (after_select fail_second_host))
     = (Inl (Error (Some (SPIError ''syntax error''))),
        (snd (after_select fail_second_host))\<lparr>db := 2\<rparr>)"
  unfolding after_select_fail_second_host by (simp add: eval_defs fail_second_host_def)

lemma execute_host_select:
  "execute_host select_host Py3 ''select 1'' None (snd (after_select select_host))
     = (Inr two_rows, (snd (after_select select_host))\<lparr>db := 2\<rparr>)"
  unfolding after_select_select_host
  by (simp add: execute_host_def ensure_transaction_def bind_parameters_def emit_def
        select_host_def)

subsection \<open>Which exceptions leave \<^verbatim>\<open>execute\<close>\<close>

lemma reset_reset: "reset (reset c) = reset c"
  by (simp add: reset_def)

lemma closed_reset: "closed (reset c) = closed c"
  by (simp add: reset_def)

lemma execute_store_reset: "execute_store h res (reset c) w = execute_store h res c w"
  by (simp add: execute_store_def Let_def reset_reset)

lemma execute_store_buffer:
  "execute_store h res c w = (r, c', w') \<Longrightarrow>
   (case execute_result c' of None \<Rightarrow> True | Some buffer \<Rightarrow> materialize h res = Inr buffer)"
  by (auto simp: execute_store_def Let_def reset_def set_rowcount_def
           split: if_splits sum.splits prod.splits)

lemma py_format_raises: "py_format s args = Inl e \<Longrightarrow> e = TypeError \<or> e = ValueError"
proof (induction s args rule: py_format.induct)
  case 1
  then show ?case by simp
next
  case (2 a args)
  then show ?case by simp
next
  case (3 c cs args)
  then show ?case
    by (auto simp: emit_def split: if_splits list.splits sum.splits)
qed

lemma map_result_raises: "map_result f xs = Inl e \<Longrightarrow> \<exists>x\<in>set xs. f x = Inl e"
  by (induction xs) (auto split: sum.splits)

lemma row_get_raises: "row_get r col = Inl e \<Longrightarrow> e = KeyError"
  by (auto simp: row_get_def split: option.splits)

lemma materialize_raises: "materialize h res = Inl e \<Longrightarrow> e = KeyError"
  by (auto simp: materialize_def split: if_splits
           dest!: map_result_raises dest: row_get_raises)

lemma get_type_obj_raises:
  "get_type_obj h typeoid w = (Inl e, w') \<Longrightarrow> \<exists>x. e = HostSPIError x"
  by (auto simp: get_type_obj_def Let_def split: if_splits prod.splits sum.splits)

lemma describe_columns_raises:
  "describe_columns h cols w = (Inl e, w') \<Longrightarrow> \<exists>x. e = HostSPIError x"
proof (induction cols arbitrary: w w')
  case Nil
  then show ?case by simp
next
  case (Cons col cols)
  obtain name typeoid where col: "col = (name, typeoid)" by (cases col)
  obtain r w1 where g: "get_type_obj h typeoid w = (r, w1)"
    by (cases "get_type_obj h typeoid w")
  show ?case
  proof (cases r)
    case (Inl x)
    with Cons.prems col g have "get_type_obj h typeoid w = (Inl e, w1)" by simp
    then show ?thesis by (rule get_type_obj_raises)
  next
    case (Inr t)
    with Cons.prems col g have "\<exists>w2. describe_columns h cols w1 = (Inl e, w2)"
      by (auto split: prod.splits sum.splits)
    then show ?thesis using Cons.IH by blast
  qed
qed

lemma describe_raises: "describe h res w = (Inl e, w') \<Longrightarrow> \<exists>x. e = HostSPIError x"
  by (auto simp: describe_def split: if_splits list.splits dest: describe_columns_raises)

lemma execute_store_raises:
  "fst (execute_store h res c w) = Inl e \<Longrightarrow> e = KeyError \<or> (\<exists>x. e = HostSPIError x)"
  by (auto simp: execute_store_def Let_def split: if_splits sum.splits prod.splits
           dest: materialize_raises describe_raises)

subsection \<open>Resetting the cursor\<close>

text \<open>
  Claim C1, as stated, fails. The assignments that reset the buffer, the position, the
  description and the row count stand after the \<^verbatim>\<open>try\<close> block (lines 217--220), so
  they are not reached when the host raises. On \<open>fail_second_host\<close> a first
  \<^verbatim>\<open>execute\<close> fetches two rows and a second one fails with the host's error: the rows
  of the first are still in the buffer and \<^verbatim>\<open>fetchone\<close> returns the first of them.
\<close>

theorem execute_failure_keeps_stale_rows:
  "fst (execute fail_second_host Py3 ''select 1'' None
          (fst (after_select fail_second_host)) (snd (after_select fail_second_host)))
     = Inl (Error (Some (SPIError ''syntax error'')))
   \<and> execute_result (fst (snd (execute fail_second_host Py3 ''select 1'' None
          (fst (after_select fail_second_host)) (snd (after_select fail_second_host)))))
     = Some [[PInt 1, PStr ''Victoria Bitter''], [PInt 2, PStr ''Coopers'']]
   \<and> fst (fetchone (fst (snd (execute fail_second_host Py3 ''select 1'' None
          (fst (after_select fail_second_host)) (snd (after_select fail_second_host))))))
     = Inr (Some [PInt 1, PStr ''Victoria Bitter''])"
  unfolding after_select_fail_second_host
  by (simp add: eval_defs fail_second_host_def fetchone_def py_index_def)

text \<open>
  Claim C1, amended. An \<^verbatim>\<open>execute\<close> call that gets a result from the host engine
  resets the result buffer, the position, the description and the row count before it
  records anything of the new execution: it ends exactly as it would on a cursor whose
  four fields had been reset beforehand, and the buffer it leaves is empty or holds the
  rows of the new result. An \<^verbatim>\<open>execute\<close> call that fails earlier (the executor or its
  session is closed, the placeholder substitution raises, or the host engine raises at
  prepare or execute) leaves the cursor as it was; so does every call that raises the
  shim's Error.
\<close>

theorem execute_resets_once_host_answers:
  "(is_closed c w \<longrightarrow> execute h ver operation parameters c w = (Inl (Error None), c, w))
   \<and> (\<not> is_closed c w \<longrightarrow>
        (\<forall>e w'. execute_host h ver operation parameters w = (Inl e, w')
            \<longrightarrow> execute h ver operation parameters c w = (Inl e, c, w'))
      \<and> (\<forall>res w'. execute_host h ver operation parameters w = (Inr res, w')
            \<longrightarrow> execute h ver operation parameters c w = execute_store h res (reset c) w'
              \<and> execute h ver operation parameters c w
                  = execute h ver operation parameters (reset c) w
              \<and> (case execute_result (fst (snd (execute h ver operation parameters c w))) of
                    None \<Rightarrow> True
                  | Some buffer \<Rightarrow> materialize h res = Inr buffer)))
   \<and> (\<forall>e. fst (execute h ver operation parameters c w) = Inl (Error e)
          \<longrightarrow> fst (snd (execute h ver operation parameters c w)) = c)"
proof (intro conjI impI allI)
  assume "is_closed c w"
  then show "execute h ver operation parameters c w = (Inl (Error None), c, w)"
    by (simp add: execute_def)
next
  fix e w'
  assume "\<not> is_closed c w" "execute_host h ver operation parameters w = (Inl e, w')"
  then show "execute h ver operation parameters c w = (Inl e, c, w')"
    by (simp add: execute_def)
next
  fix res w'
  assume a: "\<not> is_closed c w" "execute_host h ver operation parameters w = (Inr res, w')"
  then show s: "execute h ver operation parameters c w = execute_store h res (reset c) w'"
    by (simp add: execute_def execute_store_reset)
  from a show "execute h ver operation parameters c w
      = execute h ver operation parameters (reset c) w"
    by (simp add: execute_def execute_store_reset is_closed_def closed_reset)
  obtain r c' w'' where e: "execute_store h res (reset c) w' = (r, c', w'')"
    by (cases "execute_store h res (reset c) w'") auto
  from execute_store_buffer [OF e] s e
  show "case execute_result (fst (snd (execute h ver operation parameters c w))) of
          None \<Rightarrow> True | Some buffer \<Rightarrow> materialize h res = Inr buffer"
    by simp
next
  fix e
  assume a: "fst (execute h ver operation parameters c w) = Inl (Error e)"
  show "fst (snd (execute h ver operation parameters c w)) = c"
  proof (cases "is_closed c w")
    case True
    then show ?thesis by (simp add: execute_def)
  next
    case False
    obtain r w' where eh: "execute_host h ver operation parameters w = (r, w')"
      by (cases "execute_host h ver operation parameters w") auto
    show ?thesis
    proof (cases r)
      case (Inl x)
      with False eh show ?thesis by (simp add: execute_def)
    next
      case (Inr res)
      with False eh a have "fst (execute_store h res c w') = Inl (Error e)"
        by (simp add: execute_def)
      from execute_store_raises [OF this] show ?thesis by auto
    qed
  qed
qed

theorem execute_resets_once_host_answers_witness:
  "execute select_host Py3 ''select 1'' None (Cursor_close Connection_cursor) fresh_world
     = (Inl (Error None), Cursor_close Connection_cursor, fresh_world)
   \<and> execute fail_second_host Py3 ''select 1'' None
        (fst (after_select fail_second_host)) (snd (after_select fail_second_host))
     = (Inl (Error (Some (SPIError ''syntax error''))),
        fst (after_select fail_second_host),
        (snd (after_select fail_second_host))\<lparr>db := 2\<rparr>)
   \<and> execute select_host Py3 ''select 1'' None
        (fst (after_select select_host)) (snd (after_select select_host))
     = execute select_host Py3 ''select 1'' None
        (reset (fst (after_select select_host))) (snd (after_select select_host))"
proof -
  have c1: "is_closed (Cursor_close Connection_cursor) fresh_world"
    by (simp add: is_closed_def Cursor_close_def)
  have o2: "\<not> is_closed (fst (after_select fail_second_host)) (snd (after_select fail_second_host))"
    by (simp add: after_select_fail_second_host is_closed_def)
  have o3: "\<not> is_closed (fst (after_select select_host)) (snd (after_select select_host))"
    by (simp add: after_select_select_host is_closed_def)
  from execute_resets_once_host_answers
    [of "Cursor_close Connection_cursor" fresh_world select_host Py3 "''select 1''" None] c1
  have 1: "execute select_host Py3 ''select 1'' None (Cursor_close Connection_cursor) fresh_world
     = (Inl (Error None), Cursor_close Connection_cursor, fresh_world)"
    by blast
  from execute_resets_once_host_answers
    [of "fst (after_select fail_second_host)" "snd (after_select fail_second_host)"
        fail_second_host Py3 "''select 1''" None] o2 execute_host_fail_second
  have 2: "execute fail_second_host Py3 ''select 1'' None
        (fst (after_select fail_second_host)) (snd (after_select fail_second_host))
     = (Inl (Error (Some (SPIError ''syntax error''))),
        fst (after_select fail_second_host),
        (snd (after_select fail_second_host))\<lparr>db := 2\<rparr>)"
    by blast
  from execute_resets_once_host_answers
    [of "fst (after_select select_host)" "snd (after_select select_host)"
        select_host Py3 "''select 1''" None] o3 execute_host_select
  have 3: "execute select_host Py3 ''select 1'' None
        (fst (after_select select_host)) (snd (after_select select_host))
     = execute select_host Py3 ''select 1'' None
        (reset (fst (after_select select_host))) (snd (after_select select_host))"
    by blast
  from 1 2 3 show ?thesis by simp
qed

subsection \<open>executemany\<close>

text \<open>What the guard of line 273 does achieve: a running total of -1 stays -1.\<close>

lemma executemany_loop_unknown_stays:
  "executemany_loop h ver operation seq_of_parameters (- 1) c w = (Inr t, c', w') \<Longrightarrow> t = - 1"
proof (induction seq_of_parameters arbitrary: c w)
  case Nil
  then show ?case by simp
next
  case (Cons parameters rest)
  obtain r c1 w1 where e: "execute h ver operation parameters c w = (r, c1, w1)"
    by (cases "execute h ver operation parameters c w")
  show ?case
  proof (cases r)
    case (Inl x)
    with Cons.prems e show ?thesis by simp
  next
    case (Inr u)
    with Cons.prems e have "executemany_loop h ver operation rest (- 1) c1 w1 = (Inr t, c', w')"
      by simp
    then show ?thesis by (rule Cons.IH)
  qed
qed

text \<open>
  Claim C2 at a failing input. On \<open>insert_then_utility_host\<close> the first execution
  reports five rows and the second one the unknown count -1. \<^verbatim>\<open>executemany\<close> tests the
  running total, not the count just reported, before it adds: it ends with the row
  count 4, where the claim asks for -1.
\<close>

theorem executemany_unknown_after_count:
  "rowcount (fst (snd (execute insert_then_utility_host Py3 ''insert into booze values (1)'' None
       Connection_cursor fresh_world))) = 5
   \<and> rowcount (fst (snd (execute insert_then_utility_host Py3 ''insert into booze values (1)'' None
       (fst (snd (execute insert_then_utility_host Py3 ''insert into booze values (1)'' None
          Connection_cursor fresh_world)))
       (snd (snd (execute insert_then_utility_host Py3 ''insert into booze values (1)'' None
          Connection_cursor fresh_world)))))) = - 1
   \<and> fst (executemany insert_then_utility_host Py3 ''insert into booze values (1)'' [None, None]
       Connection_cursor fresh_world) = Inr ()
   \<and> rowcount (fst (snd (executemany insert_then_utility_host Py3 ''insert into booze values (1)''
       [None, None] Connection_cursor fresh_world))) = 4"
  by (simp add: eval_defs insert_then_utility_host_def five_inserted_def
        utility_done_def executemany_def)

subsection \<open>Host errors\<close>

text \<open>The statement's own prepare-and-execute step is wrapped; a raw host error can
  only come from the catalog query behind a column descriptor.\<close>

lemma execute_wraps_statement_error:
  assumes "\<not> is_closed c w"
    and "bind_parameters ver (case parameters of None \<Rightarrow> [] | Some ps \<Rightarrow> ps) = (phs, tys, vals)"
    and "py_format operation phs = Inr query"
    and "prepare_execute h query tys vals (db (ensure_transaction h w)) = (Inl e, d)"
  shows "execute h ver operation parameters c w
    = (Inl (Error (Some e)), c, (ensure_transaction h w)\<lparr>db := d\<rparr>)"
  using assms by (simp add: execute_def execute_host_def Let_def)

lemma execute_host_never_raises_host_error:
  "fst (execute_host h ver operation parameters w) \<noteq> Inl (HostSPIError x)"
  by (auto simp: execute_host_def Let_def split: sum.splits prod.splits
           dest: py_format_raises)

lemma execute_host_error_only_from_catalog:
  assumes "fst (execute h ver operation parameters c w) = Inl (HostSPIError x)"
  shows "has_colnames h"
proof (cases "is_closed c w")
  case True
  with assms show ?thesis by (simp add: execute_def)
next
  case False
  obtain r w' where eh: "execute_host h ver operation parameters w = (r, w')"
    by (cases "execute_host h ver operation parameters w")
  show ?thesis
  proof (cases r)
    case (Inl e)
    with False eh assms have "fst (execute_host h ver operation parameters w) = Inl (HostSPIError x)"
      by (simp add: execute_def)
    with execute_host_never_raises_host_error show ?thesis by blast
  next
    case (Inr res)
    with False eh assms have "fst (execute_store h res c w') = Inl (HostSPIError x)"
      by (simp add: execute_def)
    then show ?thesis
      by (auto simp: execute_store_def Let_def describe_def
               split: if_splits sum.splits prod.splits list.splits
               dest: materialize_raises)
  qed
qed

text \<open>
  Claim C3 at a failing input. On \<open>catalog_failing_host\<close> the statement itself
  succeeds, and the catalog query that \<^verbatim>\<open>get_type_obj\<close> runs for the first column
  descriptor (line 409, called from line 232, outside the \<^verbatim>\<open>try\<close> of lines 211--215)
  raises the host's SPIError: it leaves \<^verbatim>\<open>execute\<close> unwrapped.
\<close>

theorem execute_catalog_error_not_wrapped:
  "fst (execute catalog_failing_host Py3 ''select * from booze'' None Connection_cursor fresh_world)
     = Inl (HostSPIError (SPIError ''permission denied for table pg_type''))"
  by (simp add: eval_defs catalog_failing_host_def)

subsection \<open>Placeholders, on an example\<close>

theorem bind_parameters_null_and_placeholders_witness:
  "bind_parameters Py3 [PInt 1, PNone, PStr ''Coopers'']
     = ([''$1'', ''NULL'', ''$2''], [''int'', ''text''], [PInt 1, PStr ''Coopers''])
   \<and> py_format ''insert into booze values (%s, %s, %s)'' [''$1'', ''NULL'', ''$2'']
     = Inr ''insert into booze values ($1, NULL, $2)''
   \<and> length (filter is_placeholder [''$1'', ''NULL'', ''$2'']) = 2"
proof -
  have b: "bind_parameters Py3 [PInt 1, PNone, PStr ''Coopers'']
     = ([''$1'', ''NULL'', ''$2''], [''int'', ''text''], [PInt 1, PStr ''Coopers''])"
    by (simp add: bind_parameters_def py_param_to_pg_type_def isinstance_simps
          isinstance_any_def byte_types_def str_nat.simps digit_char_def)
  note t = bind_parameters_null_and_placeholders [OF b, of select_host fresh_world]
  from t have c: "length (filter is_placeholder [''$1'', ''NULL'', ''$2'']) = 2"
    by (simp add: nonnull_def)
  from t have "length [''insert into booze values ('', '', '', '', '', '')'']
        = Suc (length [PInt 1, PNone, PStr ''Coopers''])
      \<and> (\<forall>s\<in>set [''insert into booze values ('', '', '', '', '', '')'']. CHR ''%'' \<notin> set s)
      \<longrightarrow> py_format (sql_template [''insert into booze values ('', '', '', '', '', '')''])
            [''$1'', ''NULL'', ''$2'']
          = Inr (interleave [''insert into booze values ('', '', '', '', '', '')'']
                  [''$1'', ''NULL'', ''$2''])"
    by blast
  then have f: "py_format ''insert into booze values (%s, %s, %s)'' [''$1'', ''NULL'', ''$2'']
     = Inr ''insert into booze values ($1, NULL, $2)''"
    by (simp add: sql_template_def numeral_3_eq_3)
  from b c f show ?thesis by simp
qed

subsection \<open>fetchone\<close>

lemma fetchone_row:
  "execute_result c = Some buffer \<Longrightarrow> rownumber c = Some (int k) \<Longrightarrow> k < length buffer \<Longrightarrow>
   fetchone c = (Inr (Some (buffer ! k)), c\<lparr>rownumber := Some (int (Suc k))\<rparr>)"
  by (simp add: fetchone_def py_index_def add.commute)

lemma fetchone_end:
  "execute_result c = Some buffer \<Longrightarrow> rownumber c = Some (int (length buffer)) \<Longrightarrow>
   fetchone c = (Inr None, c)"
  by (simp add: fetchone_def)

lemma fetchone_times_end:
  "execute_result c = Some buffer \<Longrightarrow> rownumber c = Some (int (length buffer)) \<Longrightarrow>
   fetchone_times m c = (replicate m (Inr None), c)"
  by (induction m) (simp_all add: fetchone_end)

lemma fetchone_times_prefix:
  "execute_result c = Some buffer \<Longrightarrow> rownumber c = Some (int k) \<Longrightarrow> k + j \<le> length buffer \<Longrightarrow>
   fetchone_times j c =
     (map (\<lambda>r. Inr (Some r)) (take j (drop k buffer)), c\<lparr>rownumber := Some (int (k + j))\<rparr>)"
proof (induction j arbitrary: k c)
  case 0
  then show ?case by simp
next
  case (Suc j)
  let ?c = "c\<lparr>rownumber := Some (int (Suc k))\<rparr>"
  from Suc.prems have k: "k < length buffer" by simp
  from Suc.prems have f: "fetchone c = (Inr (Some (buffer ! k)), ?c)"
    by (simp add: fetchone_row)
  have "fetchone_times j ?c =
     (map (\<lambda>r. Inr (Some r)) (take j (drop (Suc k) buffer)), ?c\<lparr>rownumber := Some (int (Suc k + j))\<rparr>)"
    using Suc.prems by (intro Suc.IH) simp_all
  with f k show ?case
    by (simp add: Cons_nth_drop_Suc [symmetric] del: Cons_nth_drop_Suc)
qed

lemma fetchone_times_add:
  "fetchone_times (a + b) c =
     (case fetchone_times a c of
        (rs, c') \<Rightarrow> (case fetchone_times b c' of (rs', c'') \<Rightarrow> (rs @ rs', c'')))"
  by (induction a arbitrary: c) (simp_all split: prod.splits)

text \<open>
  Claim C6. \<^verbatim>\<open>fetchone\<close> raises Error when there is no result buffer. On a cursor that
  holds a buffer of N rows at position 0, the first \<open>j \<le> N\<close> calls return the first
  \<open>j\<close> rows in their order and leave the position at \<open>j\<close> (each call advances it by
  one), and after the N rows every further call returns None and leaves the position
  at N.
\<close>

theorem fetchone_in_order_then_null:
  "(execute_result c = None \<longrightarrow> fetchone c = (Inl (Error None), c))
   \<and> (execute_result c = Some buffer \<and> rownumber c = Some 0 \<longrightarrow>
        (\<forall>j\<le>length buffer.
           fetchone_times j c
             = (map (\<lambda>r. Inr (Some r)) (take j buffer), c\<lparr>rownumber := Some (int j)\<rparr>))
      \<and> (\<forall>m. fetchone_times (length buffer + m) c
             = (map (\<lambda>r. Inr (Some r)) buffer @ replicate m (Inr None),
                c\<lparr>rownumber := Some (int (length buffer))\<rparr>)))"
proof (intro conjI impI allI)
  assume "execute_result c = None"
  then show "fetchone c = (Inl (Error None), c)" by (simp add: fetchone_def)
next
  fix j
  assume a: "execute_result c = Some buffer \<and> rownumber c = Some 0" and j: "j \<le> length buffer"
  from a j fetchone_times_prefix [of c buffer 0 j]
  show "fetchone_times j c
      = (map (\<lambda>r. Inr (Some r)) (take j buffer), c\<lparr>rownumber := Some (int j)\<rparr>)"
    by simp
next
  fix m
  assume a: "execute_result c = Some buffer \<and> rownumber c = Some 0"
  let ?c = "c\<lparr>rownumber := Some (int (length buffer))\<rparr>"
  from a fetchone_times_prefix [of c buffer 0 "length buffer"]
  have p: "fetchone_times (length buffer) c = (map (\<lambda>r. Inr (Some r)) buffer, ?c)"
    by simp
  from a have "fetchone_times m ?c = (replicate m (Inr None), ?c)"
    by (intro fetchone_times_end) simp_all
  with p show "fetchone_times (length buffer + m) c
      = (map (\<lambda>r. Inr (Some r)) buffer @ replicate m (Inr None), ?c)"
    by (simp add: fetchone_times_add)
qed

theorem fetchone_in_order_then_null_witness:
  "fetchone Connection_cursor = (Inl (Error None), Connection_cursor)
   \<and> fetchone_times 4 (fst (after_select select_host))
       = ([Inr (Some [PInt 1, PStr ''Victoria Bitter'']), Inr (Some [PInt 2, PStr ''Coopers'']),
           Inr None, Inr None],
          (fst (after_select select_host))\<lparr>rownumber := Some 2\<rparr>)"
proof -
  have none: "execute_result Connection_cursor = None"
    by (simp add: Connection_cursor_def)
  have some: "execute_result (fst (after_select select_host)) = Some booze_rows
      \<and> rownumber (fst (after_select select_host)) = Some 0"
    by (simp add: booze_cursor)
  from fetchone_in_order_then_null [of Connection_cursor] none
  have 1: "fetchone Connection_cursor = (Inl (Error None), Connection_cursor)"
    by blast
  from fetchone_in_order_then_null [of "fst (after_select select_host)" booze_rows] some
  have "\<forall>m. fetchone_times (length booze_rows + m) (fst (after_select select_host))
             = (map (\<lambda>r. Inr (Some r)) booze_rows @ replicate m (Inr None),
                (fst (after_select select_host))\<lparr>rownumber := Some (int (length booze_rows))\<rparr>)"
    by blast
  then have "fetchone_times (length booze_rows + 2) (fst (after_select select_host))
             = (map (\<lambda>r. Inr (Some r)) booze_rows @ replicate 2 (Inr None),
                (fst (after_select select_host))\<lparr>rownumber := Some (int (length booze_rows))\<rparr>)"
    by (rule spec)
  note inst = this
  have e: "length booze_rows + 2 = 4"
    by (simp add: booze_rows_def)
  have m: "map (\<lambda>r. Inr (Some r)) booze_rows @ replicate 2 (Inr None)
      = [Inr (Some [PInt 1, PStr ''Victoria Bitter'']), Inr (Some [PInt 2, PStr ''Coopers'']),
         Inr None, Inr None]"
    by (simp add: booze_rows_def numeral_2_eq_2)
  have l: "int (length booze_rows) = 2"
    by (simp add: booze_rows_def)
  from inst have 2: "fetchone_times 4 (fst (after_select select_host))
       = ([Inr (Some [PInt 1, PStr ''Victoria Bitter'']), Inr (Some [PInt 2, PStr ''Coopers'']),
           Inr None, Inr None],
          (fst (after_select select_host))\<lparr>rownumber := Some 2\<rparr>)"
    unfolding e m l .
  from 1 2 show ?thesis by simp
qed

text \<open>
  Claim C10. \<^verbatim>\<open>fetchmany\<close> adds its size to the position without clipping, and with a
  position strictly past the end of the buffer \<^verbatim>\<open>fetchone\<close> raises IndexError instead
  of returning None: its test for the end compares the position with the length of the
  buffer for equality.
\<close>

theorem fetchone_past_end_raises:
  assumes "execute_result c = Some buffer" and "rownumber c = Some r"
  shows "(int (length buffer) < r \<longrightarrow> fetchone c = (Inl IndexError, c))
    \<and> fetchmany (Some n) c = (Inr (py_slice buffer r (r + n)), c\<lparr>rownumber := Some (r + n)\<rparr>)
    \<and> (int (length buffer) < r + n \<longrightarrow>
         fetchone (snd (fetchmany (Some n) c)) = (Inl IndexError, snd (fetchmany (Some n) c)))"
  using assms by (simp add: fetchone_def fetchmany_def py_index_def)

theorem fetchone_past_end_raises_witness:
  "fetchmany (Some 5) (fst (after_select select_host))
     = (Inr booze_rows, (fst (after_select select_host))\<lparr>rownumber := Some 5\<rparr>)
   \<and> fetchone ((fst (after_select select_host))\<lparr>rownumber := Some 5\<rparr>)
     = (Inl IndexError, (fst (after_select select_host))\<lparr>rownumber := Some 5\<rparr>)"
proof -
  have len: "int (length booze_rows) < 0 + 5" by (simp add: booze_rows_def)
  have sl: "py_slice booze_rows 0 (0 + 5) = booze_rows"
    by (simp add: py_slice_def slice_bound_def booze_rows_def)
  note t = fetchone_past_end_raises [OF booze_cursor(1) booze_cursor(2), of 5]
  from t sl have 1: "fetchmany (Some 5) (fst (after_select select_host))
     = (Inr booze_rows, (fst (after_select select_host))\<lparr>rownumber := Some 5\<rparr>)"
    by simp
  from t len have "fetchone (snd (fetchmany (Some 5) (fst (after_select select_host))))
     = (Inl IndexError, snd (fetchmany (Some 5) (fst (after_select select_host))))"
    by blast
  then have 2: "fetchone ((fst (after_select select_host))\<lparr>rownumber := Some 5\<rparr>)
     = (Inl IndexError, (fst (after_select select_host))\<lparr>rownumber := Some 5\<rparr>)"
    unfolding 1 by simp
  from 1 2 show ?thesis by simp
qed

subsection \<open>scroll\<close>

lemma positioned_execute_store:
  "execute_store h res c w = (r, c', w') \<Longrightarrow> positioned c'"
  by (auto simp: execute_store_def Let_def reset_def set_rowcount_def positioned_def
           split: if_splits sum.splits prod.splits)

lemma positioned_execute:
  assumes "positioned c" and "execute h ver operation parameters c w = (r, c', w')"
  shows "positioned c'"
proof (cases "is_closed c w")
  case True
  with assms show ?thesis by (simp add: execute_def)
next
  case False
  obtain x w1 where eh: "execute_host h ver operation parameters w = (x, w1)"
    by (cases "execute_host h ver operation parameters w")
  show ?thesis
  proof (cases x)
    case (Inl e)
    with False eh assms show ?thesis by (simp add: execute_def)
  next
    case (Inr res)
    with False eh assms have "execute_store h res c w1 = (r, c', w')"
      by (simp add: execute_def)
    then show ?thesis by (rule positioned_execute_store)
  qed
qed

lemma positioned_fetch:
  "positioned c \<Longrightarrow> positioned (snd (fetchone c))"
  "positioned c \<Longrightarrow> positioned (snd (fetchmany size_arg c))"
  "positioned c \<Longrightarrow> positioned (snd (fetchall c))"
  "positioned c \<Longrightarrow> positioned (snd (scroll val mode c))"
  by (auto simp: positioned_def fetchone_def fetchmany_def fetchall_def scroll_def scroll_to_def
        Let_def split: option.splits sum.splits if_splits)

text \<open>
  Claim C8. On a cursor with a result buffer (and so, by \<open>positioned_execute\<close>, a
  position \<open>r\<close>): the mode 'relative' sets the position to \<open>r + val\<close> and the mode
  'absolute' sets it to \<open>val\<close>, when that target lies between 0 and the length of the
  buffer; any other mode raises ValueError and leaves the cursor unchanged; a target
  below 0 or above the length of the buffer raises IndexError and leaves the cursor
  unchanged.
\<close>

theorem scroll_modes:
  assumes "execute_result c = Some buffer" and "rownumber c = Some r"
  shows "(mode = ''relative'' \<and> 0 \<le> r + val \<and> r + val \<le> int (length buffer) \<longrightarrow>
            scroll val mode c = (Inr (), c\<lparr>rownumber := Some (r + val)\<rparr>))
    \<and> (mode = ''absolute'' \<and> 0 \<le> val \<and> val \<le> int (length buffer) \<longrightarrow>
            scroll val mode c = (Inr (), c\<lparr>rownumber := Some val\<rparr>))
    \<and> (mode \<noteq> ''relative'' \<and> mode \<noteq> ''absolute'' \<longrightarrow> scroll val mode c = (Inl ValueError, c))
    \<and> (mode = ''relative'' \<and> (r + val < 0 \<or> int (length buffer) < r + val) \<longrightarrow>
            scroll val mode c = (Inl IndexError, c))
    \<and> (mode = ''absolute'' \<and> (val < 0 \<or> int (length buffer) < val) \<longrightarrow>
            scroll val mode c = (Inl IndexError, c))"
  using assms by (auto simp: scroll_def scroll_to_def)

theorem scroll_modes_witness:
  "scroll 2 ''relative'' (fst (after_select select_host))
     = (Inr (), (fst (after_select select_host))\<lparr>rownumber := Some 2\<rparr>)
   \<and> scroll 1 ''absolute'' (fst (after_select select_host))
     = (Inr (), (fst (after_select select_host))\<lparr>rownumber := Some 1\<rparr>)
   \<and> scroll 1 ''forward'' (fst (after_select select_host))
     = (Inl ValueError, fst (after_select select_host))
   \<and> scroll 3 ''relative'' (fst (after_select select_host))
     = (Inl IndexError, fst (after_select select_host))
   \<and> scroll (- 1) ''absolute'' (fst (after_select select_host))
     = (Inl IndexError, fst (after_select select_host))"
proof -
  note t = scroll_modes [OF booze_cursor(1) booze_cursor(2)]
  have len: "int (length booze_rows) = 2" by (simp add: booze_rows_def)
  from t [of "''relative''" 2] len
  have 1: "scroll 2 ''relative'' (fst (after_select select_host))
     = (Inr (), (fst (after_select select_host))\<lparr>rownumber := Some 2\<rparr>)" by simp
  from t [of "''absolute''" 1] len
  have 2: "scroll 1 ''absolute'' (fst (after_select select_host))
     = (Inr (), (fst (after_select select_host))\<lparr>rownumber := Some 1\<rparr>)" by simp
  from t [of "''forward''" 1]
  have 3: "scroll 1 ''forward'' (fst (after_select select_host))
     = (Inl ValueError, fst (after_select select_host))" by simp
  from t [of "''relative''" 3] len
  have 4: "scroll 3 ''relative'' (fst (after_select select_host))
     = (Inl IndexError, fst (after_select select_host))" by simp
  from t [of "''absolute''" "- 1"] len
  have 5: "scroll (- 1) ''absolute'' (fst (after_select select_host))
     = (Inl IndexError, fst (after_select select_host))" by simp
  from 1 2 3 4 5 show ?thesis by simp
qed

subsection \<open>Closing\<close>

text \<open>
  Claim C9. Closing a session is a rollback followed by marking the session closed;
  closing a closed session raises Error, so a second close after a successful one
  raises. Closing an executor only marks it closed, never raises, and closing it again
  changes nothing.
\<close>

theorem close_session_and_executor:
  "Connection_close h w
     = (case rollback h w of Inl e \<Rightarrow> Inl e | Inr w' \<Rightarrow> Inr (w'\<lparr>conn_closed := True\<rparr>))
   \<and> (conn_closed w \<longrightarrow> Connection_close h w = Inl (Error None))
   \<and> (\<forall>w'. Connection_close h w = Inr w' \<longrightarrow>
         conn_closed w' \<and> Connection_close h w' = Inl (Error None))
   \<and> Cursor_close c = c\<lparr>closed := True\<rparr>
   \<and> closed (Cursor_close c)
   \<and> Cursor_close (Cursor_close c) = Cursor_close c"
  by (auto simp: Connection_close_def rollback_def Cursor_close_def)

theorem close_session_and_executor_witness:
  "Connection_close select_host (snd (after_select select_host))
     = Inr ((snd (after_select select_host))\<lparr>subxact := None, conn_closed := True\<rparr>)
   \<and> Connection_close select_host
        ((snd (after_select select_host))\<lparr>subxact := None, conn_closed := True\<rparr>)
     = Inl (Error None)
   \<and> Cursor_close (Cursor_close Connection_cursor) = Cursor_close Connection_cursor"
proof -
  note t = close_session_and_executor
    [of select_host "snd (after_select select_host)" Connection_cursor]
  have r: "rollback select_host (snd (after_select select_host))
      = Inr ((snd (after_select select_host))\<lparr>subxact := None\<rparr>)"
    unfolding after_select_select_host by (simp add: rollback_def select_host_def)
  from t have "Connection_close select_host (snd (after_select select_host))
     = (case rollback select_host (snd (after_select select_host)) of
          Inl e \<Rightarrow> Inl e | Inr w' \<Rightarrow> Inr (w'\<lparr>conn_closed := True\<rparr>))"
    by blast
  then have 1: "Connection_close select_host (snd (after_select select_host))
     = Inr ((snd (after_select select_host))\<lparr>subxact := None, conn_closed := True\<rparr>)"
    unfolding r by simp
  with t have 2: "Connection_close select_host
        ((snd (after_select select_host))\<lparr>subxact := None, conn_closed := True\<rparr>)
     = Inl (Error None)" by blast
  from t have 3: "Cursor_close (Cursor_close Connection_cursor) = Cursor_close Connection_cursor"
    by blast
  from 1 2 3 show ?thesis by simp
qed

subsection \<open>Misuse\<close>

text \<open>
  Claim C7, as stated, fails: the fetch operations test for a result buffer only. A
  closed executor that still holds the rows of a select returns the first of them from
  \<^verbatim>\<open>fetchone\<close>.
\<close>

theorem fetch_on_closed_executor_returns_row:
  "closed (Cursor_close (fst (after_select select_host)))
   \<and> fst (fetchone (Cursor_close (fst (after_select select_host))))
       = Inr (Some [PInt 1, PStr ''Victoria Bitter''])"
  unfolding after_select_select_host
  by (simp add: Cursor_close_def fetchone_def py_index_def)

lemma executemany_closed:
  "is_closed c w \<Longrightarrow> seq_of_parameters \<noteq> [] \<Longrightarrow>
   executemany h ver operation seq_of_parameters c w = (Inl (Error None), c, w)"
  by (cases seq_of_parameters) (simp_all add: executemany_def execute_def)

text \<open>
  Claim C7, amended. These misuses raise on the misusing call: commit, rollback and
  close on a closed session; execute, and executemany with at least one parameter set,
  on a closed executor or on an executor of a closed session; fetchone, fetchmany,
  fetchall and next on an executor without a result buffer; scroll with a mode other
  than 'relative' and 'absolute'; scroll to a target below 0 or above the length of the
  buffer. The fetch operations and scroll do not look at the closed flag of the
  executor: closed or open, they return the same.
\<close>

theorem misuse_raises:
  "(conn_closed w \<longrightarrow>
      commit h w = Inl (Error None) \<and> rollback h w = Inl (Error None)
      \<and> Connection_close h w = Inl (Error None))
   \<and> (is_closed c w \<longrightarrow>
        execute h ver operation parameters c w = (Inl (Error None), c, w)
      \<and> (seq_of_parameters \<noteq> [] \<longrightarrow>
           executemany h ver operation seq_of_parameters c w = (Inl (Error None), c, w)))
   \<and> (execute_result c = None \<longrightarrow>
        fetchone c = (Inl (Error None), c) \<and> fetchmany size_arg c = (Inl (Error None), c)
      \<and> fetchall c = (Inl (Error None), c) \<and> next_row c = (Inl (Error None), c))
   \<and> (mode \<noteq> ''relative'' \<and> mode \<noteq> ''absolute'' \<longrightarrow> scroll val mode c = (Inl ValueError, c))
   \<and> (execute_result c = Some buffer \<and> rownumber c = Some r \<longrightarrow>
        (r + val < 0 \<or> int (length buffer) < r + val \<longrightarrow>
           scroll val ''relative'' c = (Inl IndexError, c))
      \<and> (val < 0 \<or> int (length buffer) < val \<longrightarrow>
           scroll val ''absolute'' c = (Inl IndexError, c)))
   \<and> fst (fetchone (c\<lparr>closed := b\<rparr>)) = fst (fetchone c)
   \<and> fst (fetchmany size_arg (c\<lparr>closed := b\<rparr>)) = fst (fetchmany size_arg c)
   \<and> fst (fetchall (c\<lparr>closed := b\<rparr>)) = fst (fetchall c)
   \<and> fst (next_row (c\<lparr>closed := b\<rparr>)) = fst (next_row c)
   \<and> fst (scroll val mode (c\<lparr>closed := b\<rparr>)) = fst (scroll val mode c)"
proof -
  have conn: "conn_closed w \<longrightarrow>
      commit h w = Inl (Error None) \<and> rollback h w = Inl (Error None)
      \<and> Connection_close h w = Inl (Error None)"
    by (simp add: commit_def rollback_def Connection_close_def)
  have ex: "is_closed c w \<longrightarrow>
        execute h ver operation parameters c w = (Inl (Error None), c, w)
      \<and> (seq_of_parameters \<noteq> [] \<longrightarrow>
           executemany h ver operation seq_of_parameters c w = (Inl (Error None), c, w))"
    by (simp add: execute_def executemany_closed)
  have fe: "execute_result c = None \<longrightarrow>
        fetchone c = (Inl (Error None), c) \<and> fetchmany size_arg c = (Inl (Error None), c)
      \<and> fetchall c = (Inl (Error None), c) \<and> next_row c = (Inl (Error None), c)"
    by (simp add: fetchone_def fetchmany_def fetchall_def next_row_def)
  have md: "mode \<noteq> ''relative'' \<and> mode \<noteq> ''absolute'' \<longrightarrow> scroll val mode c = (Inl ValueError, c)"
    by (simp add: scroll_def)
  have tg: "execute_result c = Some buffer \<and> rownumber c = Some r \<longrightarrow>
        (r + val < 0 \<or> int (length buffer) < r + val \<longrightarrow>
           scroll val ''relative'' c = (Inl IndexError, c))
      \<and> (val < 0 \<or> int (length buffer) < val \<longrightarrow>
           scroll val ''absolute'' c = (Inl IndexError, c))"
    by (auto simp: scroll_def scroll_to_def)
  have b1: "fst (fetchone (c\<lparr>closed := b\<rparr>)) = fst (fetchone c)"
    by (simp add: fetchone_def split: option.splits sum.splits)
  have b2: "fst (fetchmany size_arg (c\<lparr>closed := b\<rparr>)) = fst (fetchmany size_arg c)"
    by (simp add: fetchmany_def Let_def split: option.splits)
  have b3: "fst (fetchall (c\<lparr>closed := b\<rparr>)) = fst (fetchall c)"
    by (simp add: fetchall_def split: option.splits)
  have b4: "fst (next_row (c\<lparr>closed := b\<rparr>)) = fst (next_row c)"
    by (simp add: next_row_def fetchone_def split: option.splits sum.splits)
  have b5: "fst (scroll val mode (c\<lparr>closed := b\<rparr>)) = fst (scroll val mode c)"
    by (simp add: scroll_def scroll_to_def split: option.splits)
  from conn ex fe md tg b1 b2 b3 b4 b5 show ?thesis by blast
qed

theorem misuse_raises_witness:
  "commit select_host (fresh_world\<lparr>conn_closed := True\<rparr>) = Inl (Error None)
   \<and> execute select_host Py3 ''select 1'' None (Cursor_close Connection_cursor) fresh_world
       = (Inl (Error None), Cursor_close Connection_cursor, fresh_world)
   \<and> executemany select_host Py3 ''select 1'' [None] (Cursor_close Connection_cursor) fresh_world
       = (Inl (Error None), Cursor_close Connection_cursor, fresh_world)
   \<and> fetchall Connection_cursor = (Inl (Error None), Connection_cursor)
   \<and> scroll 0 ''forward'' Connection_cursor = (Inl ValueError, Connection_cursor)
   \<and> scroll 3 ''absolute'' (fst (after_select select_host))
       = (Inl IndexError, fst (after_select select_host))"
proof -
  have cw: "conn_closed (fresh_world\<lparr>conn_closed := True\<rparr>)" by simp
  have cc: "is_closed (Cursor_close Connection_cursor) fresh_world"
    by (simp add: is_closed_def Cursor_close_def)
  have nb: "execute_result Connection_cursor = None" by (simp add: Connection_cursor_def)
  have len: "int (length booze_rows) < 3" by (simp add: booze_rows_def)
  have ne: "[None :: pyval list option] \<noteq> []" by simp
  from misuse_raises [of "fresh_world\<lparr>conn_closed := True\<rparr>" select_host] cw
  have 1: "commit select_host (fresh_world\<lparr>conn_closed := True\<rparr>) = Inl (Error None)"
    by blast
  from misuse_raises [of fresh_world select_host "Cursor_close Connection_cursor" Py3
      "''select 1''" None "[None]"] cc ne
  have 2: "execute select_host Py3 ''select 1'' None (Cursor_close Connection_cursor) fresh_world
       = (Inl (Error None), Cursor_close Connection_cursor, fresh_world)"
    and 3: "executemany select_host Py3 ''select 1'' [None] (Cursor_close Connection_cursor)
        fresh_world = (Inl (Error None), Cursor_close Connection_cursor, fresh_world)"
    by blast+
  from misuse_raises [of fresh_world select_host Connection_cursor Py3 "''select 1''" None
      "[]" None "''forward''" 0] nb
  have 4: "fetchall Connection_cursor = (Inl (Error None), Connection_cursor)"
    and 5: "scroll 0 ''forward'' Connection_cursor = (Inl ValueError, Connection_cursor)"
    by simp_all
  from misuse_raises [of fresh_world select_host "fst (after_select select_host)" Py3
      "''select 1''" None "[]" None "''absolute''" 3 booze_rows 0]
    booze_cursor(1) booze_cursor(2) len
  have 6: "scroll 3 ''absolute'' (fst (after_select select_host))
       = (Inl IndexError, fst (after_select select_host))"
    by blast
  from 1 2 3 4 5 6 show ?thesis by simp
qed

end
